theory Spec2Isabelle
  imports Complex_Main "HOL-Library.Sublist"
begin

text \<open>
  A shallow embedding of the statistical feature engine and the result normaliser of the
  AI service (\<^verbatim>\<open>agents/anomaly_detection.py\<close>, \<^verbatim>\<open>agents/demand_forecasting.py\<close>,
  \<^verbatim>\<open>agents/delivery_prediction.py\<close>, \<^verbatim>\<open>models/requests.py\<close>, \<^verbatim>\<open>main.py\<close>).

  Conventions of the embedding.
  \<^item> A Python \<^verbatim>\<open>float\<close> is a \<^typ>\<open>real\<close> and arithmetic is exact, except where the
    rounding matters: the alert thresholds are also given with the rounding of each
    operation as a parameter. Where the source can produce \<^verbatim>\<open>nan\<close> or \<^verbatim>\<open>inf\<close> (the
    seasonal ratios) the type \<open>pyfloat\<close> carries them.
  \<^item> A Python \<^verbatim>\<open>str\<close> is a \<^typ>\<open>string\<close>; a \<^typ>\<open>char\<close> stands for the code point of the
    same number, so strings with code points from 256 on are outside the model.
  \<^item> A \<^verbatim>\<open>datetime\<close> is an \<^typ>\<open>int\<close>, the number of microseconds since the epoch, and a
    \<^verbatim>\<open>timedelta\<close> is a number of microseconds. Every \<^verbatim>\<open>datetime.now()\<close> of one call
    reads the same instant, passed as the parameter \<open>now\<close>.
  \<^item> A \<^verbatim>\<open>dict\<close> that the code iterates is an association list in insertion order
    (its keys distinct); a \<^verbatim>\<open>dict\<close> that is only written and read by key is a map.
  \<^item> A field that the source probes with \<^verbatim>\<open>hasattr\<close> is an \<^typ>\<open>'a option\<close>, \<open>None\<close>
    standing for an absent attribute; for the fields the source also tests for truth
    (\<^verbatim>\<open>anomalies\<close>, \<^verbatim>\<open>next_check_recommended\<close>) it stands for the value \<^verbatim>\<open>None\<close> as well.
\<close>

section \<open>Delivery prediction: the distance heuristic\<close>

text \<open>
  Python's \<^verbatim>\<open>int(s)\<close> on a string: leading white space is skipped, one sign is read,
  then decimal digits in which single underscores may separate digits, then trailing white
  space up to the end of the string. Anything else raises \<^verbatim>\<open>ValueError\<close>, here \<open>None\<close>.
  Below code point 256 the white space of \<^verbatim>\<open>int\<close> is 9 to 13, 32, 133 and 160, and the
  decimal digits are \<^verbatim>\<open>0\<close> to \<^verbatim>\<open>9\<close>.
\<close>

definition py_isspace :: "char \<Rightarrow> bool" where
  "py_isspace c = ((of_char c :: nat) \<in> {9, 10, 11, 12, 13, 32, 133, 160})"

definition py_isdigit :: "char \<Rightarrow> bool" where
  "py_isdigit c = (48 \<le> (of_char c :: nat) \<and> (of_char c :: nat) \<le> 57)"

definition digit_val :: "char \<Rightarrow> int" where
  "digit_val c = int (of_char c) - 48"

fun no_double_underscore :: "string \<Rightarrow> bool" where
  "no_double_underscore (a # b # cs) =
     (\<not> (a = CHR ''_'' \<and> b = CHR ''_'') \<and> no_double_underscore (b # cs))"
| "no_double_underscore cs = True"

definition digits_value :: "string \<Rightarrow> int" where
  "digits_value body = foldl (\<lambda>acc c. acc * 10 + digit_val c) 0 (filter py_isdigit body)"

definition py_int :: "string \<Rightarrow> int option" where
  "py_int s =
     (let t = dropWhile py_isspace s;
          sign = (if take 1 t = ''-'' then - 1 else 1 :: int);
          u = (if take 1 t = ''+'' \<or> take 1 t = ''-'' then drop 1 t else t);
          body = takeWhile (\<lambda>c. py_isdigit c \<or> c = CHR ''_'') u;
          rest = dropWhile (\<lambda>c. py_isdigit c \<or> c = CHR ''_'') u
      in if body = [] \<or> hd body = CHR ''_'' \<or> last body = CHR ''_''
            \<or> \<not> no_double_underscore body \<or> \<not> list_all py_isspace rest
         then None
         else Some (sign * digits_value body))"

text \<open>
  A postal code argument is a string or Python's \<^verbatim>\<open>None\<close>; \<^verbatim>\<open>None\<close> and the empty string
  are the falsy values. \<open>zip_num\<close> is one line of \<^verbatim>\<open>_estimate_distance\<close>,
  \<^verbatim>\<open>int(zip[:3]) if zip else 0\<close>, with \<open>None\<close> for the \<^verbatim>\<open>ValueError\<close> of \<^verbatim>\<open>int\<close>, which
  the \<^verbatim>\<open>except\<close> clause turns into the default distance.
\<close>

definition zip_num :: "string option \<Rightarrow> int option" where
  "zip_num z = (case z of None \<Rightarrow> Some 0
                | Some s \<Rightarrow> if s = [] then Some 0 else py_int (take 3 s))"

definition estimate_distance :: "string option \<Rightarrow> string option \<Rightarrow> int" where
  "estimate_distance origin_zip dest_zip =
     (case zip_num origin_zip of
        None \<Rightarrow> 500
      | Some origin_num \<Rightarrow>
          (case zip_num dest_zip of
             None \<Rightarrow> 500
           | Some dest_num \<Rightarrow>
               (let zip_diff = \<bar>origin_num - dest_num\<bar> in min (zip_diff * 50) 3000)))"

text \<open>
  The words of the specification about postal codes. A code is missing when it is
  \<^verbatim>\<open>None\<close> or empty (the default of \<^verbatim>\<open>.get('zip', '')\<close>); it is malformed for the
  heuristic when it is not empty and its first three characters are not an integer
  literal; it has a three-digit prefix when its first three characters are decimal
  digits, as in every five-digit ZIP code.
\<close>

definition zip_missing :: "string option \<Rightarrow> bool" where
  "zip_missing z = (case z of None \<Rightarrow> True | Some s \<Rightarrow> s = [])"

definition zip_malformed :: "string option \<Rightarrow> bool" where
  "zip_malformed z = (case z of None \<Rightarrow> False | Some s \<Rightarrow> s \<noteq> [] \<and> py_int (take 3 s) = None)"

definition has_zip_prefix :: "string \<Rightarrow> bool" where
  "has_zip_prefix s = (3 \<le> length s \<and> list_all py_isdigit (take 3 s))"

definition zip_prefix :: "string \<Rightarrow> int" where
  "zip_prefix s = digit_val (s ! 0) * 100 + digit_val (s ! 1) * 10 + digit_val (s ! 2)"

section \<open>Anomaly detection: alert thresholds\<close>

text \<open>
  \<^verbatim>\<open>sub in s\<close> and \<^verbatim>\<open>s.replace(old, new)\<close> of Python strings: the substring test, and the
  replacement of every occurrence found scanning from the left, occurrences not
  overlapping.
\<close>

fun py_contains :: "string \<Rightarrow> string \<Rightarrow> bool" where
  "py_contains sub [] = (sub = [])"
| "py_contains sub (c # cs) = (prefix sub (c # cs) \<or> py_contains sub cs)"

function py_replace :: "string \<Rightarrow> string \<Rightarrow> string \<Rightarrow> string" where
  "py_replace [] new s = new @ concat (map (\<lambda>c. c # new) s)"
| "py_replace (a # old) new [] = []"
| "py_replace (a # old) new (c # cs) =
     (if prefix (a # old) (c # cs)
      then new @ py_replace (a # old) new (drop (length old) cs)
      else c # py_replace (a # old) new cs)"
  by pat_completeness auto
termination
  by (relation "measure (\<lambda>(old, new, s). length s)") auto

text \<open>
  \<^verbatim>\<open>_calculate_alert_thresholds\<close>: one pass over the items of \<^verbatim>\<open>baseline_metrics\<close>;
  \<open>threshold_step\<close> is the body of the loop, the dictionary \<^verbatim>\<open>thresholds\<close> being
  the accumulator.
\<close>

definition threshold_step ::
  "(string \<times> real) list \<Rightarrow> real \<Rightarrow> (string \<rightharpoonup> real) \<Rightarrow> string \<times> real
     \<Rightarrow> (string \<rightharpoonup> real)" where
  "threshold_step baseline_metrics sensitivity_factor thresholds item =
     (case item of (metric, value) \<Rightarrow>
        if py_contains ''std'' metric
        then thresholds(metric @ ''_threshold'' \<mapsto> value * sensitivity_factor)
        else (let std_key = py_replace ''avg'' ''std'' metric in
              case map_of baseline_metrics std_key of
                Some std_value \<Rightarrow>
                  thresholds(metric @ ''_upper'' \<mapsto> value + std_value * sensitivity_factor,
                             metric @ ''_lower'' \<mapsto> value - std_value * sensitivity_factor)
              | None \<Rightarrow> thresholds))"

definition calculate_alert_thresholds ::
  "(string \<times> real) list \<Rightarrow> real \<Rightarrow> (string \<rightharpoonup> real)" where
  "calculate_alert_thresholds baseline_metrics sensitivity =
     (let sensitivity_factor = 2.0 - sensitivity
      in foldl (threshold_step baseline_metrics sensitivity_factor) Map.empty baseline_metrics)"

text \<open>
  The same function with the rounding of floating-point arithmetic written out. In
  binary64 every addition, subtraction and multiplication returns the exact result
  rounded by one function, to the nearest representable number: that function is the
  parameter \<open>rnd\<close>, and what the properties below need of it is that it is monotone
  and maps 0 to 0. The baseline values and the sensitivity are numbers; \<^verbatim>\<open>nan\<close>, the
  infinities and overflow are outside this model. With the identity for \<open>rnd\<close> this is
  \<open>calculate_alert_thresholds\<close>.
\<close>

definition threshold_step_fl ::
  "(real \<Rightarrow> real) \<Rightarrow> (string \<times> real) list \<Rightarrow> real \<Rightarrow> (string \<rightharpoonup> real) \<Rightarrow> string \<times> real
     \<Rightarrow> (string \<rightharpoonup> real)" where
  "threshold_step_fl rnd baseline_metrics sensitivity_factor thresholds item =
     (case item of (metric, value) \<Rightarrow>
        if py_contains ''std'' metric
        then thresholds(metric @ ''_threshold'' \<mapsto> rnd (value * sensitivity_factor))
        else (let std_key = py_replace ''avg'' ''std'' metric in
              case map_of baseline_metrics std_key of
                Some std_value \<Rightarrow>
                  thresholds(metric @ ''_upper'' \<mapsto>
                               rnd (value + rnd (std_value * sensitivity_factor)),
                             metric @ ''_lower'' \<mapsto>
                               rnd (value - rnd (std_value * sensitivity_factor)))
              | None \<Rightarrow> thresholds))"

definition calculate_alert_thresholds_fl ::
  "(real \<Rightarrow> real) \<Rightarrow> (string \<times> real) list \<Rightarrow> real \<Rightarrow> (string \<rightharpoonup> real)" where
  "calculate_alert_thresholds_fl rnd baseline_metrics sensitivity =
     (let sensitivity_factor = rnd (2.0 - sensitivity)
      in foldl (threshold_step_fl rnd baseline_metrics sensitivity_factor) Map.empty
           baseline_metrics)"

text \<open>
  A rounding that is not the identity, used as an example: to the nearest multiple of
  one quarter.
\<close>

definition quarter_round :: "real \<Rightarrow> real" where
  "quarter_round x = real_of_int \<lfloor>x * 4 + 1 / 2\<rfloor> / 4"

text \<open>
  Two baselines of the shape \<^verbatim>\<open>_calculate_pricing_baseline\<close> returns for a \<^verbatim>\<open>price\<close>
  column: the four statistics of the column, and the baseline of prices that are all
  equal (standard deviation zero).
\<close>

definition pricing_baseline :: "(string \<times> real) list" where
  "pricing_baseline =
     [(''avg_price'', 100), (''std_price'', 10), (''max_price'', 150), (''min_price'', 50)]"

definition flat_pricing_baseline :: "(string \<times> real) list" where
  "flat_pricing_baseline =
     [(''avg_price'', 20), (''std_price'', 0), (''max_price'', 20), (''min_price'', 20)]"

section \<open>Anomaly detection: the result normaliser\<close>

type_synonym datetime = int

definition timedelta_minutes :: "int \<Rightarrow> int" where
  "timedelta_minutes n = n * 60 * 1000000"

definition timedelta_hours :: "int \<Rightarrow> int" where
  "timedelta_hours n = n * 3600 * 1000000"

definition timedelta_days :: "int \<Rightarrow> int" where
  "timedelta_days n = n * 86400 * 1000000"

record AnomalyItem =
  anomaly_type :: string
  severity :: string
  description :: string
  affected_entities :: "string list"
  detected_at :: datetime
  recommendation :: "string option"

record AnomalyDetectionResponse =
  anomalies :: "AnomalyItem list option"
  total_anomalies :: int
  analysis_period :: "(string \<times> datetime) list"
  model_confidence :: "real option"
  next_check_recommended :: "datetime option"

text \<open>
  The context of one request. Of the historical records and the recent patterns the
  normaliser reads nothing but the number of records, so their types are parameters.
\<close>

record ('r, 'p) AnomalyContext =
  historical_data :: "'r list"
  baseline_metrics :: "(string \<times> real) list"
  alert_thresholds :: "string \<rightharpoonup> real"
  recent_patterns :: "'p"

text \<open>The list held by \<^verbatim>\<open>result.anomalies\<close>, read where the source takes its length.\<close>

definition anomalies_list :: "AnomalyDetectionResponse \<Rightarrow> AnomalyItem list" where
  "anomalies_list result = (case anomalies result of None \<Rightarrow> [] | Some xs \<Rightarrow> xs)"

text \<open>
  \<^verbatim>\<open>_enhance_detection_result\<close>, statement by statement; \<open>r1\<close> to \<open>r4\<close> are the
  states of the mutated \<^verbatim>\<open>result\<close> object.
\<close>

definition enhance_detection_result ::
  "datetime \<Rightarrow> AnomalyDetectionResponse \<Rightarrow> ('r, 'p) AnomalyContext
     \<Rightarrow> (string \<times> datetime) list \<Rightarrow> AnomalyDetectionResponse" where
  "enhance_detection_result now result context time_range =
     (let r1 = (if anomalies result = None \<or> anomalies result = Some []
                then result\<lparr>anomalies := Some []\<rparr> else result);
          r2 = r1\<lparr>total_anomalies := int (length (anomalies_list r1)),
                   analysis_period := time_range\<rparr>;
          r3 = (if model_confidence r2 = None \<or> model_confidence r2 = Some 0
                then (let data_quality_score =
                            min (real (length (historical_data context)) / 100) 1.0;
                          baseline_quality_score =
                            min (real (length (baseline_metrics context)) / 10) 1.0
                      in r2\<lparr>model_confidence :=
                              Some ((data_quality_score + baseline_quality_score) / 2)\<rparr>)
                else r2);
          r4 = (if next_check_recommended r3 = None
                then (if total_anomalies r3 > 0
                      then (let critical_anomalies =
                                  length (filter (\<lambda>a. severity a = ''critical'')
                                            (anomalies_list r3))
                            in if critical_anomalies > 0
                               then r3\<lparr>next_check_recommended :=
                                         Some (now + timedelta_minutes 15)\<rparr>
                               else r3\<lparr>next_check_recommended :=
                                         Some (now + timedelta_hours 1)\<rparr>)
                      else r3\<lparr>next_check_recommended := Some (now + timedelta_hours 4)\<rparr>)
                else r3)
      in r4)"

text \<open>Results of the oracle used as examples: an anomaly of a given severity.\<close>

definition sample_anomaly :: "string \<Rightarrow> AnomalyItem" where
  "sample_anomaly sev =
     \<lparr>anomaly_type = ''pricing'', severity = sev, description = ''price jump'',
      affected_entities = [''p1''], detected_at = 0, recommendation = None\<rparr>"

definition oracle_anomaly_response :: "AnomalyItem list \<Rightarrow> AnomalyDetectionResponse" where
  "oracle_anomaly_response xs =
     \<lparr>anomalies = Some xs, total_anomalies = 7, analysis_period = [],
      model_confidence = Some (9 / 10), next_check_recommended = None\<rparr>"

definition empty_anomaly_context :: "(unit, unit) AnomalyContext" where
  "empty_anomaly_context =
     \<lparr>historical_data = [], baseline_metrics = [], alert_thresholds = Map.empty,
      recent_patterns = ()\<rparr>"

section \<open>Demand forecasting: the result normaliser\<close>

record DemandForecastItem =
  product_id :: string
  warehouse_id :: "string option"
  date :: datetime
  predicted_demand :: real
  confidence_score :: real
  seasonal_factor :: "real option"

record DemandForecastResponse =
  forecasts :: "DemandForecastItem list"
  model_accuracy :: "real option"
  generated_at :: datetime
  forecast_horizon_days :: int

text \<open>
  \<^verbatim>\<open>_enhance_forecast_result\<close>. \<^verbatim>\<open>range(min(forecast_days, 7))\<close> is empty when its
  argument is not positive, as \<^term>\<open>nat\<close> of a negative integer is 0.
\<close>

definition enhance_forecast_result ::
  "datetime \<Rightarrow> DemandForecastResponse \<Rightarrow> int \<Rightarrow> DemandForecastResponse" where
  "enhance_forecast_result now result forecast_days =
     (let r1 = (if forecasts result = []
                then result\<lparr>forecasts :=
                       map (\<lambda>i. \<lparr>product_id = ''sample_product'',
                                 warehouse_id = None,
                                 date = now + timedelta_days (int i),
                                 predicted_demand = 10.0,
                                 confidence_score = 0.7,
                                 seasonal_factor = Some 1.0\<rparr>)
                           [0 ..< nat (min forecast_days 7)]\<rparr>
                else result);
          r2 = r1\<lparr>generated_at := now, forecast_horizon_days := forecast_days\<rparr>;
          r3 = (if model_accuracy r2 = None \<or> model_accuracy r2 = Some 0
                then r2\<lparr>model_accuracy := Some 0.85\<rparr> else r2)
      in r3)"

text \<open>A result of the oracle with no forecasts, used as an example.\<close>

definition oracle_empty_forecast :: DemandForecastResponse where
  "oracle_empty_forecast =
     \<lparr>forecasts = [], model_accuracy = Some (9 / 10), generated_at = 0,
      forecast_horizon_days = 0\<rparr>"

section \<open>Demand forecasting: the seasonal profile\<close>

text \<open>
  A float that may be \<^verbatim>\<open>nan\<close> or infinite, and the division of two \<^verbatim>\<open>numpy.float64\<close>
  means, either of which is a number or \<^verbatim>\<open>nan\<close> (\<open>None\<close>): division by zero gives an
  infinity or \<^verbatim>\<open>nan\<close> and raises nothing.
\<close>

datatype pyfloat = PFin real | PInf | PNegInf | PNaN

definition np_divide :: "real option \<Rightarrow> real option \<Rightarrow> pyfloat" where
  "np_divide a b =
     (case (a, b) of
        (Some x, Some y) \<Rightarrow>
          if y \<noteq> 0 then PFin (x / y)
          else if 0 < x then PInf else if x < 0 then PNegInf else PNaN
      | _ \<Rightarrow> PNaN)"

text \<open>
  One historical record, as far as \<^verbatim>\<open>_calculate_seasonal_patterns\<close> reads it: the
  joined \<^verbatim>\<open>orders\<close> value (the key absent, a value that is no dictionary, or a
  dictionary with or without \<^verbatim>\<open>created_at\<close>), and the \<^verbatim>\<open>quantity\<close> (the key
  absent, null, or a number). A \<^verbatim>\<open>created_at\<close> value is null, a text that
  \<^verbatim>\<open>pandas.to_datetime\<close> rejects, or a timestamp, given by its calendar fields.
  The \<^verbatim>\<open>quantity\<close> column of the data frame is taken to be numeric: a null or absent
  value is the missing value \<^verbatim>\<open>nan\<close>, which the means skip.
\<close>

record timestamp =
  ts_year :: int
  ts_month :: nat
  ts_day :: nat

datatype created_at_cell = CreatedNull | CreatedUnparseable | Created timestamp

datatype orders_cell = OrdersAbsent | OrdersNotDict | OrdersDict "created_at_cell option"

datatype quantity_cell = QuantityAbsent | QuantityNull | Quantity real

record historical_record =
  orders :: orders_cell
  quantity :: quantity_cell

datatype py_exception = KeyError | ValueError

text \<open>
  The \<^verbatim>\<open>lambda\<close> applied to the \<^verbatim>\<open>orders\<close> column, then \<^verbatim>\<open>pandas.to_datetime\<close> on its
  result: \<open>Inr None\<close> is the missing date \<^verbatim>\<open>NaT\<close>.
\<close>

definition row_date :: "historical_record \<Rightarrow> py_exception + timestamp option" where
  "row_date r =
     (case orders r of
        OrdersAbsent \<Rightarrow> Inr None
      | OrdersNotDict \<Rightarrow> Inr None
      | OrdersDict None \<Rightarrow> Inl KeyError
      | OrdersDict (Some CreatedNull) \<Rightarrow> Inr None
      | OrdersDict (Some CreatedUnparseable) \<Rightarrow> Inl ValueError
      | OrdersDict (Some (Created t)) \<Rightarrow> Inr (Some t))"

text \<open>
  The rows left by \<^verbatim>\<open>dropna(subset=['date'])\<close>, each with its month and quantity;
  \<open>Inl\<close> when a date cannot be computed for some row.
\<close>

fun dated_rows :: "historical_record list \<Rightarrow> py_exception + (nat \<times> quantity_cell) list" where
  "dated_rows [] = Inr []"
| "dated_rows (r # rs) =
     (case row_date r of
        Inl e \<Rightarrow> Inl e
      | Inr d \<Rightarrow>
          (case dated_rows rs of
             Inl e \<Rightarrow> Inl e
           | Inr ds \<Rightarrow>
               (case d of None \<Rightarrow> Inr ds
                | Some t \<Rightarrow> Inr ((ts_month t, quantity r) # ds))))"

text \<open>\<^verbatim>\<open>Series.mean()\<close>: the mean of the values that are numbers, \<^verbatim>\<open>nan\<close> when there is none.\<close>

definition quantity_values :: "quantity_cell list \<Rightarrow> real list" where
  "quantity_values qs = concat (map (\<lambda>q. case q of Quantity x \<Rightarrow> [x] | _ \<Rightarrow> []) qs)"

definition series_mean :: "quantity_cell list \<Rightarrow> real option" where
  "series_mean qs =
     (let xs = quantity_values qs
      in if xs = [] then None else Some (sum_list xs / real (length xs)))"

text \<open>\<^verbatim>\<open>str(n)\<close> of a natural number, for the keys \<^verbatim>\<open>f'month_{month}'\<close>.\<close>

fun py_str_nat :: "nat \<Rightarrow> string" where
  "py_str_nat n =
     (if n < 10 then [char_of (48 + n)]
      else py_str_nat (n div 10) @ [char_of (48 + n mod 10)])"

declare py_str_nat.simps [simp del]

definition month_key :: "nat \<Rightarrow> string" where
  "month_key month = ''month_'' @ py_str_nat month"

text \<open>
  \<^verbatim>\<open>_calculate_seasonal_patterns\<close>. Every exception raised inside the \<^verbatim>\<open>try\<close> block
  is caught and the empty dictionary is returned, as it is for no data, no \<^verbatim>\<open>orders\<close>
  column and no dated row. The \<^verbatim>\<open>quantity\<close> column exists when some record has the key.
\<close>

definition calculate_seasonal_patterns :: "historical_record list \<Rightarrow> (string \<times> pyfloat) list" where
  "calculate_seasonal_patterns hist =
     (if hist = [] then []
      else if list_all (\<lambda>r. orders r = OrdersAbsent) hist then []
      else (case dated_rows hist of
              Inl e \<Rightarrow> []
            | Inr df \<Rightarrow>
                if df = [] then []
                else if list_all (\<lambda>r. quantity r = QuantityAbsent) hist then []
                else (let monthly_avg = (\<lambda>month. series_mean (map snd (filter (\<lambda>row. fst row = month) df)));
                          overall_avg = series_mean (map snd df)
                      in map (\<lambda>month.
                                if month \<in> set (map fst df)
                                then (month_key month, np_divide (monthly_avg month) overall_avg)
                                else (month_key month, PFin 1.0))
                             [1 ..< 13])))"

text \<open>
  The line of \<^verbatim>\<open>forecast_demand\<close> that computes the profile:
  \<^verbatim>\<open>self._calculate_seasonal_patterns(historical_data) if include_seasonality else {}\<close>.
\<close>

definition forecast_demand_seasonal_patterns ::
  "historical_record list \<Rightarrow> bool \<Rightarrow> (string \<times> pyfloat) list" where
  "forecast_demand_seasonal_patterns hist include_seasonality =
     (if include_seasonality then calculate_seasonal_patterns hist else [])"

text \<open>
  The months observed in the historical data, and the data from which the profile is
  computed at all.
\<close>

definition observed_months :: "historical_record list \<Rightarrow> nat set" where
  "observed_months hist = (case dated_rows hist of Inl e \<Rightarrow> {} | Inr df \<Rightarrow> set (map fst df))"

definition seasonal_data_usable :: "historical_record list \<Rightarrow> bool" where
  "seasonal_data_usable hist =
     (case dated_rows hist of
        Inl e \<Rightarrow> False
      | Inr df \<Rightarrow> df \<noteq> [] \<and> list_ex (\<lambda>r. quantity r \<noteq> QuantityAbsent) hist)"

text \<open>Two order items of March and one of July, used as an example.\<close>

definition sample_history :: "historical_record list" where
  "sample_history =
     [\<lparr>orders = OrdersDict (Some (Created \<lparr>ts_year = 2024, ts_month = 3, ts_day = 5\<rparr>)),
       quantity = Quantity 4\<rparr>,
      \<lparr>orders = OrdersDict (Some (Created \<lparr>ts_year = 2024, ts_month = 3, ts_day = 9\<rparr>)),
       quantity = Quantity 8\<rparr>,
      \<lparr>orders = OrdersDict (Some (Created \<lparr>ts_year = 2024, ts_month = 7, ts_day = 1\<rparr>)),
       quantity = Quantity 12\<rparr>]"

section \<open>Request models and the endpoints\<close>

record DemandForecastRequest =
  product_ids :: "string list"
  warehouse_ids :: "string list option"
  forecast_days :: int
  include_seasonality :: bool

record AnomalyDetectionRequest =
  data_type :: string
  time_range :: "(string \<times> datetime) list"
  sensitivity :: real
  include_recommendations :: bool

datatype request_error = ValidationError

text \<open>
  The constraints the request models declare with \<^verbatim>\<open>Field\<close>: \<^verbatim>\<open>ge\<close> and \<^verbatim>\<open>le\<close> are
  inclusive bounds. \<^verbatim>\<open>forecast_days\<close> is declared \<^verbatim>\<open>Field(30, ge=1, le=365)\<close> and
  \<^verbatim>\<open>sensitivity\<close> \<^verbatim>\<open>Field(0.5, ge=0.0, le=1.0)\<close>; \<^verbatim>\<open>product_ids\<close> is declared
  \<^verbatim>\<open>List[str] = Field(...)\<close>, required and with no constraint on its length.
\<close>

definition field_ge_le :: "'a::linorder \<Rightarrow> 'a \<Rightarrow> 'a \<Rightarrow> bool" where
  "field_ge_le ge le v = (ge \<le> v \<and> v \<le> le)"

definition validate_DemandForecastRequest ::
  "DemandForecastRequest \<Rightarrow> request_error + DemandForecastRequest" where
  "validate_DemandForecastRequest request =
     (if field_ge_le 1 365 (forecast_days request) then Inr request else Inl ValidationError)"

definition validate_AnomalyDetectionRequest ::
  "AnomalyDetectionRequest \<Rightarrow> request_error + AnomalyDetectionRequest" where
  "validate_AnomalyDetectionRequest request =
     (if field_ge_le 0.0 1.0 (sensitivity request) then Inr request else Inl ValidationError)"

text \<open>
  The endpoints of \<^verbatim>\<open>main.py\<close>. The request body is validated against its model before
  the handler is entered (status 422); the handler answers 503 when the agent is not
  initialised and 500 when the agent raises. The agent's pipeline is a parameter: a
  function of the validated request that returns a response or raises.
\<close>

datatype 'a http_result = Response 'a | HTTP_422 | HTTP_503 | HTTP_500

definition forecast_demand_endpoint ::
  "(DemandForecastRequest \<Rightarrow> 'e + 'a) option \<Rightarrow> DemandForecastRequest \<Rightarrow> 'a http_result" where
  "forecast_demand_endpoint demand_agent body =
     (case validate_DemandForecastRequest body of
        Inl err \<Rightarrow> HTTP_422
      | Inr request \<Rightarrow>
          (case demand_agent of
             None \<Rightarrow> HTTP_503
           | Some forecast_demand \<Rightarrow>
               (case forecast_demand request of
                  Inl e \<Rightarrow> HTTP_500
                | Inr result \<Rightarrow> Response result)))"

definition detect_anomalies_endpoint ::
  "(AnomalyDetectionRequest \<Rightarrow> 'e + 'a) option \<Rightarrow> AnomalyDetectionRequest \<Rightarrow> 'a http_result" where
  "detect_anomalies_endpoint anomaly_agent body =
     (case validate_AnomalyDetectionRequest body of
        Inl err \<Rightarrow> HTTP_422
      | Inr request \<Rightarrow>
          (case anomaly_agent of
             None \<Rightarrow> HTTP_503
           | Some detect_anomalies \<Rightarrow>
               (case detect_anomalies request of
                  Inl e \<Rightarrow> HTTP_500
                | Inr result \<Rightarrow> Response result)))"

text \<open>
  Requests used as examples, and a pipeline that answers with the number of product
  identifiers it was given.
\<close>

definition forecast_request :: "string list \<Rightarrow> int \<Rightarrow> DemandForecastRequest" where
  "forecast_request ids days =
     \<lparr>product_ids = ids, warehouse_ids = None, forecast_days = days,
      include_seasonality = True\<rparr>"

definition anomaly_request :: "real \<Rightarrow> AnomalyDetectionRequest" where
  "anomaly_request s =
     \<lparr>data_type = ''orders'', time_range = [(''start'', 0), (''end'', 1)], sensitivity = s,
      include_recommendations = True\<rparr>"

definition counting_pipeline :: "DemandForecastRequest \<Rightarrow> unit + nat" where
  "counting_pipeline request = Inr (length (product_ids request))"

section \<open>Properties of the distance heuristic\<close>

lemma digit_not_other:
  assumes "py_isdigit c"
  shows "\<not> py_isspace c" "c \<noteq> CHR ''_''" "c \<noteq> CHR ''+''" "c \<noteq> CHR ''-''"
  using assms by (auto simp: py_isdigit_def py_isspace_def)

lemma py_int_three_digits:
  assumes "py_isdigit a" "py_isdigit b" "py_isdigit c"
  shows "py_int [a, b, c] = Some (digit_val a * 100 + digit_val b * 10 + digit_val c)"
  using assms digit_not_other[OF assms(1)] digit_not_other[OF assms(2)]
    digit_not_other[OF assms(3)]
  by (simp add: py_int_def digits_value_def Let_def)

lemma zip_num_well_formed:
  assumes "has_zip_prefix s"
  shows "zip_num (Some s) = Some (zip_prefix s)"
proof -
  from assms obtain a b c r where s: "s = a # b # c # r"
    by (cases s; cases "tl s"; cases "tl (tl s)") (auto simp: has_zip_prefix_def)
  with assms have d: "py_isdigit a" "py_isdigit b" "py_isdigit c"
    by (simp_all add: has_zip_prefix_def)
  show ?thesis
    by (simp add: zip_num_def s py_int_three_digits[OF d] zip_prefix_def)
qed

lemma zip_num_malformed: "zip_malformed z \<Longrightarrow> zip_num z = None"
  by (auto simp: zip_malformed_def zip_num_def split: option.splits)

lemma zip_num_missing: "zip_missing z \<Longrightarrow> zip_num z = Some 0"
  by (auto simp: zip_missing_def zip_num_def split: option.splits)

text \<open>
  Claim C3, as amended. The claim reads: if either postal code is missing or malformed,
  the heuristic returns exactly 500 miles. The code returns 500 only through its
  \<^verbatim>\<open>except\<close> clause, that is when a code is not empty and its first three characters
  are not an integer literal. A missing code (\<^verbatim>\<open>None\<close> or the empty string) is guarded
  by \<^verbatim>\<open>if zip else 0\<close> and counts as the prefix 0: then the result is the capped
  distance of the other prefix from 0.
\<close>

theorem estimate_distance_default_cases:
  "(zip_malformed origin_zip \<or> zip_malformed dest_zip \<longrightarrow>
      estimate_distance origin_zip dest_zip = 500)
   \<and> (zip_missing origin_zip \<and> zip_num dest_zip = Some n \<longrightarrow>
      estimate_distance origin_zip dest_zip = min (\<bar>n\<bar> * 50) 3000)
   \<and> (zip_num origin_zip = Some n \<and> zip_missing dest_zip \<longrightarrow>
      estimate_distance origin_zip dest_zip = min (\<bar>n\<bar> * 50) 3000)"
  by (auto simp: estimate_distance_def Let_def dest!: zip_num_malformed zip_num_missing
           split: option.splits)

theorem estimate_distance_default_cases_witness:
  "zip_malformed (Some ''K1A 0B1'')
   \<and> estimate_distance (Some ''K1A 0B1'') (Some ''94105'') = 500
   \<and> zip_missing None \<and> zip_num (Some ''94105'') = Some 941
   \<and> estimate_distance None (Some ''94105'') = 3000
   \<and> zip_num (Some ''01105'') = Some 11 \<and> zip_missing (Some '''')
   \<and> estimate_distance (Some ''01105'') (Some '''') = 550"
  using estimate_distance_default_cases[of "Some ''K1A 0B1''" "Some ''94105''" 0]
    estimate_distance_default_cases[of None "Some ''94105''" 941]
    estimate_distance_default_cases[of "Some ''01105''" "Some ''''" 11]
  by (simp add: zip_malformed_def zip_missing_def zip_num_def py_int_def py_isspace_def
        py_isdigit_def digits_value_def digit_val_def)

text \<open>
  The claim as stated fails where the origin code is missing: the warehouse has no
  \<^verbatim>\<open>zip\<close>, the destination is \<^verbatim>\<open>94105\<close>, and the estimate is 3000 miles, not 500.
\<close>

theorem estimate_distance_missing_counterexample:
  "zip_missing (Some '''') \<and> estimate_distance (Some '''') (Some ''94105'') = 3000
   \<and> estimate_distance (Some '''') (Some ''94105'') \<noteq> 500"
  by (simp add: zip_missing_def estimate_distance_def zip_num_def py_int_def py_isspace_def
        py_isdigit_def digits_value_def digit_val_def)

text \<open>
  Claim C9. For postal codes whose first three characters are decimal digits, the
  estimate is the absolute difference of the two three-digit prefixes times 50, capped
  at 3000; so it never exceeds 3000 miles and is non-decreasing in the prefix
  difference.
\<close>

theorem estimate_distance_well_formed:
  assumes "has_zip_prefix o1" "has_zip_prefix d1" "has_zip_prefix o2" "has_zip_prefix d2"
  shows "estimate_distance (Some o1) (Some d1)
           = min (\<bar>zip_prefix o1 - zip_prefix d1\<bar> * 50) 3000
       \<and> estimate_distance (Some o1) (Some d1) \<le> 3000
       \<and> (\<bar>zip_prefix o1 - zip_prefix d1\<bar> \<le> \<bar>zip_prefix o2 - zip_prefix d2\<bar> \<longrightarrow>
            estimate_distance (Some o1) (Some d1) \<le> estimate_distance (Some o2) (Some d2))"
proof -
  have e1: "estimate_distance (Some o1) (Some d1)
              = min (\<bar>zip_prefix o1 - zip_prefix d1\<bar> * 50) 3000"
    using assms(1,2) by (simp add: estimate_distance_def Let_def zip_num_well_formed)
  have e2: "estimate_distance (Some o2) (Some d2)
              = min (\<bar>zip_prefix o2 - zip_prefix d2\<bar> * 50) 3000"
    using assms(3,4) by (simp add: estimate_distance_def Let_def zip_num_well_formed)
  have mono: "min (a * 50) 3000 \<le> min (b * 50) 3000" if "a \<le> b" for a b :: int
    using that by linarith
  show ?thesis
    unfolding e1 e2 using mono by simp
qed

theorem estimate_distance_well_formed_witness:
  "has_zip_prefix ''10001'' \<and> has_zip_prefix ''10512'' \<and> has_zip_prefix ''94105''
   \<and> zip_prefix ''10001'' = 100 \<and> zip_prefix ''10512'' = 105 \<and> zip_prefix ''94105'' = 941
   \<and> estimate_distance (Some ''10001'') (Some ''10512'') = 250
   \<and> estimate_distance (Some ''10001'') (Some ''10512'') \<le> 3000
   \<and> estimate_distance (Some ''10001'') (Some ''10512'')
       \<le> estimate_distance (Some ''10001'') (Some ''94105'')"
  using estimate_distance_well_formed[of "''10001''" "''10512''" "''10001''" "''94105''"]
  by (simp add: has_zip_prefix_def zip_prefix_def py_isdigit_def digit_val_def)

section \<open>Properties of the alert thresholds\<close>

lemma key_suffix_neq:
  "m @ ''_threshold'' \<noteq> m' @ ''_upper''" "m @ ''_threshold'' \<noteq> m' @ ''_lower''"
  "m @ ''_upper'' \<noteq> m' @ ''_threshold''" "m @ ''_lower'' \<noteq> m' @ ''_threshold''"
  "m @ ''_upper'' \<noteq> m' @ ''_lower''" "m @ ''_lower'' \<noteq> m' @ ''_upper''"
proof -
  have neq: "m @ s \<noteq> m' @ t" if "s \<noteq> []" "t \<noteq> []" "last s \<noteq> last t" for m m' s t :: string
    using that by (metis last_append)
  show "m @ ''_threshold'' \<noteq> m' @ ''_upper''" by (rule neq) simp_all
  show "m @ ''_threshold'' \<noteq> m' @ ''_lower''" by (rule neq) simp_all
  show "m @ ''_upper'' \<noteq> m' @ ''_threshold''" by (rule neq) simp_all
  show "m @ ''_lower'' \<noteq> m' @ ''_threshold''" by (rule neq) simp_all
  show "m @ ''_upper'' \<noteq> m' @ ''_lower''" by (simp add: append_eq_append_conv)
  show "m @ ''_lower'' \<noteq> m' @ ''_upper''" by (simp add: append_eq_append_conv)
qed

lemma map_of_snoc_distinct:
  assumes "distinct (map fst (xs @ [(m', v')]))"
  shows "map_of (xs @ [(m', v')]) m = (if m = m' then Some v' else map_of xs m)"
proof -
  from assms have "m' \<notin> fst ` set xs" by auto
  then have "map_of xs m' = None" by (simp add: map_of_eq_None_iff)
  then show ?thesis by (auto simp: map_add_def split: option.splits)
qed

text \<open>
  What one pass of the loop leaves under each key, for every rounding; the exact
  function is the case of the identity.
\<close>

lemma threshold_step_fl_std:
  assumes "py_contains ''std'' m'"
  shows "threshold_step_fl rnd bm f acc (m', v') k =
         (if k = m' @ ''_threshold'' then Some (rnd (v' * f)) else acc k)"
  using assms by (simp add: threshold_step_fl_def)

lemma threshold_step_fl_other:
  assumes "\<not> py_contains ''std'' m'"
  shows "threshold_step_fl rnd bm f acc (m', v') k =
         (case map_of bm (py_replace ''avg'' ''std'' m') of
            None \<Rightarrow> acc k
          | Some sd \<Rightarrow> if k = m' @ ''_lower'' then Some (rnd (v' - rnd (sd * f)))
                       else if k = m' @ ''_upper'' then Some (rnd (v' + rnd (sd * f))) else acc k)"
  using assms by (simp add: threshold_step_fl_def Let_def split: option.splits)

lemma foldl_threshold_step_fl_threshold:
  assumes "distinct (map fst xs)" "py_contains ''std'' m"
  shows "foldl (threshold_step_fl rnd bm f) Map.empty xs (m @ ''_threshold'') =
         map_option (\<lambda>v. rnd (v * f)) (map_of xs m)"
  using assms(1)
proof (induction xs rule: rev_induct)
  case Nil
  then show ?case by simp
next
  case (snoc x xs)
  obtain m' v' where x: "x = (m', v')" by (cases x)
  from snoc.prems have d: "distinct (map fst xs)" by simp
  note IH = snoc.IH[OF d]
  note mo = map_of_snoc_distinct[OF snoc.prems[unfolded x], of m]
  show ?case
  proof (cases "py_contains ''std'' m'")
    case True
    show ?thesis unfolding x foldl_append mo
      by (simp add: threshold_step_fl_std[OF True] IH)
  next
    case False
    with assms(2) have "m \<noteq> m'" by auto
    then show ?thesis unfolding x foldl_append mo
      by (simp add: threshold_step_fl_other[OF False] IH key_suffix_neq split: option.splits)
  qed
qed

lemma foldl_threshold_step_fl_upper:
  assumes "distinct (map fst xs)" "\<not> py_contains ''std'' m"
  shows "foldl (threshold_step_fl rnd bm f) Map.empty xs (m @ ''_upper'') =
         (case map_of xs m of None \<Rightarrow> None
          | Some v \<Rightarrow> map_option (\<lambda>sd. rnd (v + rnd (sd * f))) (map_of bm (py_replace ''avg'' ''std'' m)))"
  using assms(1)
proof (induction xs rule: rev_induct)
  case Nil
  then show ?case by simp
next
  case (snoc x xs)
  obtain m' v' where x: "x = (m', v')" by (cases x)
  from snoc.prems have d: "distinct (map fst xs)" by simp
  from snoc.prems have fresh: "map_of xs m' = None"
    unfolding x by (simp add: map_of_eq_None_iff)
  note IH = snoc.IH[OF d]
  note mo = map_of_snoc_distinct[OF snoc.prems[unfolded x], of m]
  show ?case
  proof (cases "py_contains ''std'' m'")
    case True
    with assms(2) have "m \<noteq> m'" by auto
    then show ?thesis unfolding x foldl_append mo
      by (simp add: threshold_step_fl_std[OF True] IH key_suffix_neq)
  next
    case False
    show ?thesis
    proof (cases "m = m'")
      case True
      from IH fresh have "foldl (threshold_step_fl rnd bm f) Map.empty xs (m' @ ''_upper'') = None"
        unfolding True by simp
      moreover from mo True have "map_of (xs @ [(m', v')]) m' = Some v'" by simp
      ultimately show ?thesis unfolding x foldl_append True
        by (simp add: threshold_step_fl_other[OF False] key_suffix_neq split: option.splits)
    next
      case neq: False
      then show ?thesis unfolding x foldl_append mo
        by (simp add: threshold_step_fl_other[OF False] IH key_suffix_neq split: option.splits)
    qed
  qed
qed

lemma foldl_threshold_step_fl_lower:
  assumes "distinct (map fst xs)" "\<not> py_contains ''std'' m"
  shows "foldl (threshold_step_fl rnd bm f) Map.empty xs (m @ ''_lower'') =
         (case map_of xs m of None \<Rightarrow> None
          | Some v \<Rightarrow> map_option (\<lambda>sd. rnd (v - rnd (sd * f))) (map_of bm (py_replace ''avg'' ''std'' m)))"
  using assms(1)
proof (induction xs rule: rev_induct)
  case Nil
  then show ?case by simp
next
  case (snoc x xs)
  obtain m' v' where x: "x = (m', v')" by (cases x)
  from snoc.prems have d: "distinct (map fst xs)" by simp
  from snoc.prems have fresh: "map_of xs m' = None"
    unfolding x by (simp add: map_of_eq_None_iff)
  note IH = snoc.IH[OF d]
  note mo = map_of_snoc_distinct[OF snoc.prems[unfolded x], of m]
  show ?case
  proof (cases "py_contains ''std'' m'")
    case True
    with assms(2) have "m \<noteq> m'" by auto
    then show ?thesis unfolding x foldl_append mo
      by (simp add: threshold_step_fl_std[OF True] IH key_suffix_neq)
  next
    case False
    show ?thesis
    proof (cases "m = m'")
      case True
      from IH fresh have "foldl (threshold_step_fl rnd bm f) Map.empty xs (m' @ ''_lower'') = None"
        unfolding True by simp
      moreover from mo True have "map_of (xs @ [(m', v')]) m' = Some v'" by simp
      ultimately show ?thesis unfolding x foldl_append True
        by (simp add: threshold_step_fl_other[OF False] key_suffix_neq split: option.splits)
    next
      case neq: False
      then show ?thesis unfolding x foldl_append mo
        by (simp add: threshold_step_fl_other[OF False] IH key_suffix_neq split: option.splits)
    qed
  qed
qed

lemma threshold_step_fl_exact: "threshold_step_fl (\<lambda>x. x) = threshold_step"
  by (intro ext) (simp add: threshold_step_fl_def threshold_step_def)

lemma calculate_alert_thresholds_fl_exact:
  "calculate_alert_thresholds_fl (\<lambda>x. x) bm s = calculate_alert_thresholds bm s"
  by (simp add: calculate_alert_thresholds_fl_def calculate_alert_thresholds_def
        threshold_step_fl_exact)

lemma foldl_threshold_step_upper:
  assumes "distinct (map fst xs)" "\<not> py_contains ''std'' m"
  shows "foldl (threshold_step bm f) Map.empty xs (m @ ''_upper'') =
         (case map_of xs m of None \<Rightarrow> None
          | Some v \<Rightarrow> map_option (\<lambda>sd. v + sd * f) (map_of bm (py_replace ''avg'' ''std'' m)))"
  using foldl_threshold_step_fl_upper[OF assms, of "\<lambda>x. x" bm f]
  by (simp add: threshold_step_fl_exact)

lemma foldl_threshold_step_lower:
  assumes "distinct (map fst xs)" "\<not> py_contains ''std'' m"
  shows "foldl (threshold_step bm f) Map.empty xs (m @ ''_lower'') =
         (case map_of xs m of None \<Rightarrow> None
          | Some v \<Rightarrow> map_option (\<lambda>sd. v - sd * f) (map_of bm (py_replace ''avg'' ''std'' m)))"
  using foldl_threshold_step_fl_lower[OF assms, of "\<lambda>x. x" bm f]
  by (simp add: threshold_step_fl_exact)

lemma quarter_round_mono: "mono quarter_round"
  unfolding mono_def quarter_round_def
  by (intro allI impI divide_right_mono) (simp_all add: floor_mono)

lemma quarter_round_zero: "quarter_round 0 = 0"
  by (simp add: quarter_round_def)

lemma quarter_round_values:
  "quarter_round (7 / 4) = 7 / 4" "quarter_round (5 / 4) = 5 / 4"
  "quarter_round (3 / 2) = 3 / 2" "quarter_round (29 / 20) = 3 / 2"
  "quarter_round (35 / 2) = 35 / 2" "quarter_round (25 / 2) = 25 / 2"
  "quarter_round 15 = 15"
  "quarter_round (235 / 2) = 235 / 2" "quarter_round (225 / 2) = 225 / 2"
  "quarter_round (165 / 2) = 165 / 2" "quarter_round (175 / 2) = 175 / 2"
  by (simp_all add: quarter_round_def)

lemma rounded_factor:
  fixes rnd :: "real \<Rightarrow> real"
  assumes "mono rnd" "rnd 0 = 0" "0 \<le> s1" "s1 < s2" "s2 \<le> (1 :: real)"
  shows "0 \<le> rnd (2 - s2)" "rnd (2 - s2) \<le> rnd (2 - s1)"
proof -
  from assms(5) have "0 \<le> 2 - s2" by simp
  from monoD[OF assms(1) this] assms(2) show "0 \<le> rnd (2 - s2)" by simp
  from assms(4) have "2 - s2 \<le> 2 - s1" by simp
  from monoD[OF assms(1) this] show "rnd (2 - s2) \<le> rnd (2 - s1)" .
qed

lemma rounded_product_shrinks:
  fixes rnd :: "real \<Rightarrow> real" and x f1 f2 :: real
  assumes "mono rnd" "rnd 0 = 0" "0 \<le> f2" "f2 \<le> f1"
  shows "\<bar>rnd (x * f2)\<bar> \<le> \<bar>rnd (x * f1)\<bar>"
    and "0 \<le> x \<Longrightarrow> 0 \<le> rnd (x * f2) \<and> rnd (x * f2) \<le> rnd (x * f1)"
    and "x \<le> 0 \<Longrightarrow> rnd (x * f1) \<le> rnd (x * f2) \<and> rnd (x * f2) \<le> 0"
proof -
  have pos: "0 \<le> rnd (x * f2) \<and> rnd (x * f2) \<le> rnd (x * f1)" if "0 \<le> x"
  proof -
    from that assms(3) have "0 \<le> x * f2" by simp
    from monoD[OF assms(1) this] assms(2) have a: "0 \<le> rnd (x * f2)" by simp
    from that assms(4) have "x * f2 \<le> x * f1" by (rule mult_left_mono[rotated])
    from monoD[OF assms(1) this] a show ?thesis by simp
  qed
  have neg: "rnd (x * f1) \<le> rnd (x * f2) \<and> rnd (x * f2) \<le> 0" if "x \<le> 0"
  proof -
    from that assms(3) have "x * f2 \<le> 0" by (simp add: mult_nonpos_nonneg)
    from monoD[OF assms(1) this] assms(2) have a: "rnd (x * f2) \<le> 0" by simp
    from that assms(4) have "x * f1 \<le> x * f2" by (rule mult_left_mono_neg[rotated])
    from monoD[OF assms(1) this] a show ?thesis by simp
  qed
  show "0 \<le> x \<Longrightarrow> 0 \<le> rnd (x * f2) \<and> rnd (x * f2) \<le> rnd (x * f1)" by (rule pos)
  show "x \<le> 0 \<Longrightarrow> rnd (x * f1) \<le> rnd (x * f2) \<and> rnd (x * f2) \<le> 0" by (rule neg)
  show "\<bar>rnd (x * f2)\<bar> \<le> \<bar>rnd (x * f1)\<bar>"
  proof (cases "0 \<le> x")
    case True
    from pos[OF True] show ?thesis by linarith
  next
    case False
    then have "x \<le> 0" by simp
    from neg[OF this] show ?thesis by linarith
  qed
qed

lemma rounded_band_shrinks:
  fixes rnd :: "real \<Rightarrow> real" and v d1 d2 :: real
  assumes "mono rnd"
  shows "0 \<le> d2 \<Longrightarrow> d2 \<le> d1 \<Longrightarrow>
           rnd (v + d2) \<le> rnd (v + d1) \<and> rnd (v - d1) \<le> rnd (v - d2)
         \<and> \<bar>rnd (v + d2) - rnd (v - d2)\<bar> \<le> \<bar>rnd (v + d1) - rnd (v - d1)\<bar>"
    and "d1 \<le> d2 \<Longrightarrow> d2 \<le> 0 \<Longrightarrow>
           \<bar>rnd (v + d2) - rnd (v - d2)\<bar> \<le> \<bar>rnd (v + d1) - rnd (v - d1)\<bar>"
proof -
  note m = monoD[OF assms]
  show "rnd (v + d2) \<le> rnd (v + d1) \<and> rnd (v - d1) \<le> rnd (v - d2)
         \<and> \<bar>rnd (v + d2) - rnd (v - d2)\<bar> \<le> \<bar>rnd (v + d1) - rnd (v - d1)\<bar>"
    if "0 \<le> d2" "d2 \<le> d1"
  proof -
    from that have a: "rnd (v + d2) \<le> rnd (v + d1)" by (intro m) simp
    from that have b: "rnd (v - d1) \<le> rnd (v - d2)" by (intro m) simp
    from that have c: "rnd (v - d2) \<le> rnd (v + d2)" by (intro m) simp
    from a b c show ?thesis by linarith
  qed
  show "\<bar>rnd (v + d2) - rnd (v - d2)\<bar> \<le> \<bar>rnd (v + d1) - rnd (v - d1)\<bar>"
    if "d1 \<le> d2" "d2 \<le> 0"
  proof -
    from that have a: "rnd (v + d1) \<le> rnd (v + d2)" by (intro m) simp
    from that have b: "rnd (v - d2) \<le> rnd (v - d1)" by (intro m) simp
    from that have c: "rnd (v + d2) \<le> rnd (v - d2)" by (intro m) simp
    from a b c show ?thesis by linarith
  qed
qed

text \<open>
  A metric whose name holds neither \<^verbatim>\<open>std\<close> nor \<^verbatim>\<open>avg\<close> is its own
  \<^verbatim>\<open>std_key\<close>, so it always gets bounds, computed from its own value.
\<close>

lemma py_replace_absent:
  "\<not> py_contains (a # old) s \<Longrightarrow> py_replace (a # old) new s = s"
  by (induction s) auto

lemma bounds_without_avg:
  assumes "distinct (map fst bm)" and "(m, v) \<in> set bm"
    and "\<not> py_contains ''std'' m" and "\<not> py_contains ''avg'' m"
  shows "calculate_alert_thresholds bm s (m @ ''_upper'') = Some (v + v * (2 - s))"
    and "calculate_alert_thresholds bm s (m @ ''_lower'') = Some (v - v * (2 - s))"
proof -
  from assms(1,2) have look: "map_of bm m = Some v" by simp
  from assms(4) have same: "py_replace ''avg'' ''std'' m = m" by (rule py_replace_absent)
  show "calculate_alert_thresholds bm s (m @ ''_upper'') = Some (v + v * (2 - s))"
    using foldl_threshold_step_upper[OF assms(1,3), of bm "2 - s"] look
    by (simp add: calculate_alert_thresholds_def same)
  show "calculate_alert_thresholds bm s (m @ ''_lower'') = Some (v - v * (2 - s))"
    using foldl_threshold_step_lower[OF assms(1,3), of bm "2 - s"] look
    by (simp add: calculate_alert_thresholds_def same)
qed

text \<open>
  Claim C1, evaluated where the code departs from it. The claim reads: upper and lower
  bounds are emitted for exactly the \<^verbatim>\<open>avg\<close>-named metrics that have a \<^verbatim>\<open>std\<close>
  counterpart, and nothing is emitted for a metric without one, such as a minimum or a
  maximum. In the code a metric whose name holds neither \<^verbatim>\<open>std\<close> nor \<^verbatim>\<open>avg\<close> is left
  unchanged by \<^verbatim>\<open>replace('avg', 'std')\<close>, so the key looked up is the metric itself,
  which is in the mapping: on the pricing baseline the maximum and the minimum get
  bounds too, computed with their own value in place of a standard deviation.
\<close>

theorem calculate_alert_thresholds_minmax_bounds:
  "calculate_alert_thresholds pricing_baseline (1 / 2) ''max_price_upper'' = Some 375
   \<and> calculate_alert_thresholds pricing_baseline (1 / 2) ''max_price_lower'' = Some (- 75)
   \<and> calculate_alert_thresholds pricing_baseline (1 / 2) ''min_price_upper'' = Some 125
   \<and> calculate_alert_thresholds pricing_baseline (1 / 2) ''min_price_lower'' = Some (- 25)
   \<and> calculate_alert_thresholds pricing_baseline (1 / 2) ''std_price_threshold'' = Some 15
   \<and> calculate_alert_thresholds pricing_baseline (1 / 2) ''avg_price_upper'' = Some 115
   \<and> calculate_alert_thresholds pricing_baseline (1 / 2) ''avg_price_lower'' = Some 85"
  by (simp add: calculate_alert_thresholds_def threshold_step_def pricing_baseline_def)

text \<open>
  Claim C5, as amended. The claim reads: for a fixed baseline and sensitivities
  \<open>s1 < s2\<close> in \<open>[0, 1]\<close>, every bound computed with \<open>s2\<close> is tighter than with \<open>s1\<close>.
  For a baseline of numbers with distinct keys, and for every rounding \<open>rnd\<close> of the
  arithmetic that is monotone and maps 0 to 0: the threshold of a \<^verbatim>\<open>std\<close>-named metric
  of value \<open>v\<close> is \<open>rnd (v * rnd (2 - s))\<close>, and the bounds of an \<^verbatim>\<open>avg\<close>-named metric of
  value \<open>v\<close> whose counterpart has value \<open>sd\<close> are \<open>rnd (v + rnd (sd * rnd (2 - s)))\<close>
  and \<open>rnd (v - rnd (sd * rnd (2 - s)))\<close>. The magnitude of the threshold and the
  distance between the two bounds are never larger with \<open>s2\<close> than with \<open>s1\<close>; when
  the standard deviation is not negative, the threshold and the upper bound do not
  rise and the lower bound does not fall; when it is zero the bounds of \<open>s1\<close> and \<open>s2\<close>
  coincide. Nothing is said to be strictly tighter: the bounds also coincide when the
  two rounded factors do.
\<close>

theorem alert_thresholds_never_wider:
  assumes "distinct (map fst bm)" and "mono rnd" and "rnd 0 = 0"
    and "0 \<le> s1" and "s1 < s2" and "s2 \<le> 1" and "(m, v) \<in> set bm"
  shows "(py_contains ''std'' m \<longrightarrow>
            calculate_alert_thresholds_fl rnd bm s1 (m @ ''_threshold'')
              = Some (rnd (v * rnd (2 - s1)))
          \<and> calculate_alert_thresholds_fl rnd bm s2 (m @ ''_threshold'')
              = Some (rnd (v * rnd (2 - s2)))
          \<and> \<bar>rnd (v * rnd (2 - s2))\<bar> \<le> \<bar>rnd (v * rnd (2 - s1))\<bar>
          \<and> (0 \<le> v \<longrightarrow> rnd (v * rnd (2 - s2)) \<le> rnd (v * rnd (2 - s1)))
          \<and> (v = 0 \<longrightarrow> rnd (v * rnd (2 - s2)) = rnd (v * rnd (2 - s1))))
       \<and> (\<not> py_contains ''std'' m \<and> py_contains ''avg'' m
            \<and> map_of bm (py_replace ''avg'' ''std'' m) = Some sd \<longrightarrow>
            calculate_alert_thresholds_fl rnd bm s1 (m @ ''_upper'')
              = Some (rnd (v + rnd (sd * rnd (2 - s1))))
          \<and> calculate_alert_thresholds_fl rnd bm s2 (m @ ''_upper'')
              = Some (rnd (v + rnd (sd * rnd (2 - s2))))
          \<and> calculate_alert_thresholds_fl rnd bm s1 (m @ ''_lower'')
              = Some (rnd (v - rnd (sd * rnd (2 - s1))))
          \<and> calculate_alert_thresholds_fl rnd bm s2 (m @ ''_lower'')
              = Some (rnd (v - rnd (sd * rnd (2 - s2))))
          \<and> \<bar>rnd (v + rnd (sd * rnd (2 - s2))) - rnd (v - rnd (sd * rnd (2 - s2)))\<bar>
              \<le> \<bar>rnd (v + rnd (sd * rnd (2 - s1))) - rnd (v - rnd (sd * rnd (2 - s1)))\<bar>
          \<and> (0 \<le> sd \<longrightarrow>
                rnd (v + rnd (sd * rnd (2 - s2))) \<le> rnd (v + rnd (sd * rnd (2 - s1)))
              \<and> rnd (v - rnd (sd * rnd (2 - s1))) \<le> rnd (v - rnd (sd * rnd (2 - s2))))
          \<and> (sd = 0 \<longrightarrow>
                rnd (v + rnd (sd * rnd (2 - s2))) = rnd (v + rnd (sd * rnd (2 - s1)))
              \<and> rnd (v - rnd (sd * rnd (2 - s2))) = rnd (v - rnd (sd * rnd (2 - s1)))))"
proof -
  from assms(1,7) have look: "map_of bm m = Some v" by simp
  have std: "calculate_alert_thresholds_fl rnd bm s (m @ ''_threshold'')
               = Some (rnd (v * rnd (2 - s)))"
    if "py_contains ''std'' m" for s
    using foldl_threshold_step_fl_threshold[OF assms(1) that, of rnd bm "rnd (2 - s)"] look
    by (simp add: calculate_alert_thresholds_fl_def)
  have up: "calculate_alert_thresholds_fl rnd bm s (m @ ''_upper'')
               = Some (rnd (v + rnd (sd * rnd (2 - s))))"
    if "\<not> py_contains ''std'' m" "map_of bm (py_replace ''avg'' ''std'' m) = Some sd" for s
    using foldl_threshold_step_fl_upper[OF assms(1) that(1), of rnd bm "rnd (2 - s)"] look that(2)
    by (simp add: calculate_alert_thresholds_fl_def)
  have lo: "calculate_alert_thresholds_fl rnd bm s (m @ ''_lower'')
               = Some (rnd (v - rnd (sd * rnd (2 - s))))"
    if "\<not> py_contains ''std'' m" "map_of bm (py_replace ''avg'' ''std'' m) = Some sd" for s
    using foldl_threshold_step_fl_lower[OF assms(1) that(1), of rnd bm "rnd (2 - s)"] look that(2)
    by (simp add: calculate_alert_thresholds_fl_def)
  note f = rounded_factor[OF assms(2,3,4,5,6)]
  note p = rounded_product_shrinks[OF assms(2,3) f]
  have t1: "\<bar>rnd (v * rnd (2 - s2))\<bar> \<le> \<bar>rnd (v * rnd (2 - s1))\<bar>" by (rule p(1))
  have t2: "rnd (v * rnd (2 - s2)) \<le> rnd (v * rnd (2 - s1))" if "0 \<le> v"
    using p(2)[OF that] by simp
  have w: "\<bar>rnd (v + rnd (sd * rnd (2 - s2))) - rnd (v - rnd (sd * rnd (2 - s2)))\<bar>
              \<le> \<bar>rnd (v + rnd (sd * rnd (2 - s1))) - rnd (v - rnd (sd * rnd (2 - s1)))\<bar>"
  proof (cases "0 \<le> sd")
    case True
    from p(2)[OF True] rounded_band_shrinks(1)[OF assms(2)] show ?thesis by blast
  next
    case False
    then have "sd \<le> 0" by simp
    from p(3)[OF this] rounded_band_shrinks(2)[OF assms(2)] show ?thesis by blast
  qed
  have o: "rnd (v + rnd (sd * rnd (2 - s2))) \<le> rnd (v + rnd (sd * rnd (2 - s1)))
              \<and> rnd (v - rnd (sd * rnd (2 - s1))) \<le> rnd (v - rnd (sd * rnd (2 - s2)))"
    if "0 \<le> sd"
    using p(2)[OF that] rounded_band_shrinks(1)[OF assms(2)] by blast
  show ?thesis
    using std up lo t1 t2 w o by simp
qed

theorem alert_thresholds_never_wider_witness:
  "distinct (map fst pricing_baseline) \<and> mono quarter_round \<and> quarter_round 0 = 0
   \<and> (0 :: real) \<le> 1 / 4 \<and> (1 / 4 :: real) < 3 / 4 \<and> (3 / 4 :: real) \<le> 1
   \<and> (''std_price'', 10) \<in> set pricing_baseline \<and> py_contains ''std'' ''std_price''
   \<and> calculate_alert_thresholds_fl quarter_round pricing_baseline (1 / 4) ''std_price_threshold''
       = Some (35 / 2)
   \<and> calculate_alert_thresholds_fl quarter_round pricing_baseline (3 / 4) ''std_price_threshold''
       = Some (25 / 2)
   \<and> (''avg_price'', 100) \<in> set pricing_baseline
   \<and> \<not> py_contains ''std'' ''avg_price'' \<and> py_contains ''avg'' ''avg_price''
   \<and> map_of pricing_baseline (py_replace ''avg'' ''std'' ''avg_price'') = Some 10
   \<and> calculate_alert_thresholds_fl quarter_round pricing_baseline (1 / 4) ''avg_price_upper''
       = Some (235 / 2)
   \<and> calculate_alert_thresholds_fl quarter_round pricing_baseline (3 / 4) ''avg_price_upper''
       = Some (225 / 2)
   \<and> calculate_alert_thresholds_fl quarter_round pricing_baseline (1 / 4) ''avg_price_lower''
       = Some (165 / 2)
   \<and> calculate_alert_thresholds_fl quarter_round pricing_baseline (3 / 4) ''avg_price_lower''
       = Some (175 / 2)
   \<and> (1 / 2 :: real) < 11 / 20
   \<and> calculate_alert_thresholds_fl quarter_round pricing_baseline (1 / 2) ''std_price_threshold''
       = Some 15
   \<and> calculate_alert_thresholds_fl quarter_round pricing_baseline (11 / 20) ''std_price_threshold''
       = Some 15"
proof -
  have d: "distinct (map fst pricing_baseline)" by (simp add: pricing_baseline_def)
  have m1: "(''std_price'', 10) \<in> set pricing_baseline" by (simp add: pricing_baseline_def)
  have m2: "(''avg_price'', 100) \<in> set pricing_baseline" by (simp add: pricing_baseline_def)
  have c1: "py_contains ''std'' ''std_price''" by simp
  have c2: "\<not> py_contains ''std'' ''avg_price''" "py_contains ''avg'' ''avg_price''" by simp_all
  have c3: "map_of pricing_baseline (py_replace ''avg'' ''std'' ''avg_price'') = Some 10"
    by (simp add: pricing_baseline_def)
  note q = quarter_round_mono quarter_round_zero
  from alert_thresholds_never_wider[OF d q _ _ _ m1, of "1 / 4" "3 / 4" 0]
    alert_thresholds_never_wider[OF d q _ _ _ m2, of "1 / 4" "3 / 4" 10]
    alert_thresholds_never_wider[OF d q _ _ _ m1, of "1 / 2" "11 / 20" 0]
    c1 c2 c3 d m1 m2 q
  show ?thesis by (simp add: quarter_round_values)
qed

text \<open>
  The claim as stated fails on a baseline whose standard deviation is zero (all prices
  equal): the bounds for sensitivity 0 and for sensitivity 1 are the same, so the
  second are not tighter. Every operation at this input is exact in binary64.
\<close>

theorem alert_thresholds_tighten_counterexample:
  "(0 :: real) < 1
   \<and> calculate_alert_thresholds flat_pricing_baseline 0 ''std_price_threshold'' = Some 0
   \<and> calculate_alert_thresholds flat_pricing_baseline 1 ''std_price_threshold'' = Some 0
   \<and> calculate_alert_thresholds flat_pricing_baseline 0 ''avg_price_upper'' = Some 20
   \<and> calculate_alert_thresholds flat_pricing_baseline 1 ''avg_price_upper'' = Some 20
   \<and> calculate_alert_thresholds flat_pricing_baseline 0 ''avg_price_lower'' = Some 20
   \<and> calculate_alert_thresholds flat_pricing_baseline 1 ''avg_price_lower'' = Some 20"
  by (simp add: calculate_alert_thresholds_def threshold_step_def flat_pricing_baseline_def)

section \<open>Properties of the anomaly normaliser\<close>

text \<open>
  Claim C6. In every normalised anomaly response the \<^verbatim>\<open>anomalies\<close> field holds a list
  and \<^verbatim>\<open>total_anomalies\<close> is the length of that list, whatever count and whatever
  list (or none) the oracle supplied.
\<close>

theorem total_anomalies_is_length:
  "anomalies (enhance_detection_result now result ctx period)
     = Some (anomalies_list (enhance_detection_result now result ctx period))
   \<and> total_anomalies (enhance_detection_result now result ctx period)
     = int (length (anomalies_list (enhance_detection_result now result ctx period)))"
  by (cases "anomalies result")
     (auto simp: enhance_detection_result_def anomalies_list_def Let_def)

lemma enhance_next_check_unset:
  assumes "next_check_recommended result = None"
  shows "next_check_recommended (enhance_detection_result now result ctx period)
         = Some (if anomalies_list result = [] then now + timedelta_hours 4
                 else if filter (\<lambda>a. severity a = ''critical'') (anomalies_list result) = []
                 then now + timedelta_hours 1
                 else now + timedelta_minutes 15)"
proof (cases "anomalies result")
  case None
  with assms show ?thesis
    by (simp add: enhance_detection_result_def anomalies_list_def Let_def)
next
  case (Some xs)
  with assms show ?thesis
    by (simp add: enhance_detection_result_def anomalies_list_def Let_def)
qed

text \<open>
  Claim C7. When the oracle left \<^verbatim>\<open>next_check_recommended\<close> unset, normalisation sets
  it to the evaluation time plus 15 minutes if some anomaly has severity \<^verbatim>\<open>critical\<close>,
  else plus 1 hour if there is an anomaly, else plus 4 hours.
\<close>

theorem next_check_tiers:
  assumes "next_check_recommended result = None"
  shows "next_check_recommended (enhance_detection_result now result ctx period)
         = Some (if list_ex (\<lambda>a. severity a = ''critical'') (anomalies_list result)
                 then now + timedelta_minutes 15
                 else if anomalies_list result \<noteq> [] then now + timedelta_hours 1
                 else now + timedelta_hours 4)"
proof -
  have f: "(filter P xs = []) = (\<not> list_ex P xs)" for P and xs :: "AnomalyItem list"
    by (simp add: list_ex_iff filter_empty_conv)
  have g: "\<not> list_ex P []" for P :: "AnomalyItem \<Rightarrow> bool"
    by simp
  show ?thesis
    unfolding enhance_next_check_unset[OF assms] f
    by (cases "anomalies_list result = []") (simp_all add: g)
qed

theorem next_check_tiers_witness:
  "next_check_recommended (oracle_anomaly_response [sample_anomaly ''low'']) = None
   \<and> next_check_recommended (enhance_detection_result 1000
          (oracle_anomaly_response [sample_anomaly ''low'']) empty_anomaly_context [])
       = Some (1000 + 3600000000)
   \<and> next_check_recommended (enhance_detection_result 1000
          (oracle_anomaly_response [sample_anomaly ''critical'']) empty_anomaly_context [])
       = Some (1000 + 900000000)
   \<and> next_check_recommended (enhance_detection_result 1000
          (oracle_anomaly_response []) empty_anomaly_context [])
       = Some (1000 + 14400000000)"
  using next_check_tiers[of "oracle_anomaly_response [sample_anomaly ''low'']" 1000 empty_anomaly_context "[]"]
    next_check_tiers[of "oracle_anomaly_response [sample_anomaly ''critical'']" 1000 empty_anomaly_context "[]"]
    next_check_tiers[of "oracle_anomaly_response []" 1000 empty_anomaly_context "[]"]
  by (simp add: oracle_anomaly_response_def sample_anomaly_def anomalies_list_def
        timedelta_minutes_def timedelta_hours_def)

section \<open>Properties of the demand normaliser\<close>

lemma enhance_forecasts_empty:
  assumes "forecasts result = []"
  shows "forecasts (enhance_forecast_result now result days)
         = map (\<lambda>i. \<lparr>product_id = ''sample_product'', warehouse_id = None,
                      date = now + timedelta_days (int i), predicted_demand = 10,
                      confidence_score = 7 / 10, seasonal_factor = Some 1\<rparr>)
               [0 ..< nat (min days 7)]"
  using assms by (simp add: enhance_forecast_result_def Let_def)

text \<open>
  Claim C8. For \<^verbatim>\<open>forecast_days\<close> in \<open>[1, 365]\<close> and an empty \<^verbatim>\<open>forecasts\<close> list from the
  oracle, normalisation synthesises exactly \<open>min forecast_days 7\<close> items, the item of
  index \<open>i\<close> dated \<open>i\<close> days after the evaluation time, each with predicted demand
  10.0, confidence 0.7 and seasonal factor 1.0; for \<^verbatim>\<open>forecast_days = 3\<close> these are three
  items dated day 0, 1 and 2.
\<close>

theorem placeholder_forecasts:
  assumes "1 \<le> days" and "days \<le> 365" and "forecasts result = []"
  shows "length (forecasts (enhance_forecast_result now result days))
           = nat (min days 7)
       \<and> (\<forall>i < nat (min days 7).
             date (forecasts (enhance_forecast_result now result days) ! i)
               = now + int i * 86400000000
           \<and> predicted_demand (forecasts (enhance_forecast_result now result days) ! i) = 10
           \<and> confidence_score (forecasts (enhance_forecast_result now result days) ! i) = 7 / 10
           \<and> seasonal_factor (forecasts (enhance_forecast_result now result days) ! i) = Some 1)
       \<and> (days = 3 \<longrightarrow>
             map date (forecasts (enhance_forecast_result now result days))
               = [now, now + 86400000000, now + 2 * 86400000000])"
proof -
  have three: "[0 ..< 3] = [0, 1, 2 :: nat]" by code_simp
  show ?thesis
    unfolding enhance_forecasts_empty[OF assms(3)]
    by (auto simp: timedelta_days_def three)
qed

theorem placeholder_forecasts_witness:
  "(1 :: int) \<le> 3 \<and> (3 :: int) \<le> 365 \<and> forecasts oracle_empty_forecast = []
   \<and> length (forecasts (enhance_forecast_result 500 oracle_empty_forecast 3)) = 3
   \<and> map date (forecasts (enhance_forecast_result 500 oracle_empty_forecast 3))
       = [500, 500 + 86400000000, 500 + 2 * 86400000000]
   \<and> length (forecasts (enhance_forecast_result 500 oracle_empty_forecast 30)) = 7"
proof -
  have e: "forecasts oracle_empty_forecast = []" by (simp add: oracle_empty_forecast_def)
  from placeholder_forecasts[OF _ _ e, of 3 500] placeholder_forecasts[OF _ _ e, of 30 500] e
  show ?thesis by simp
qed

text \<open>
  Claim C10. When the oracle returns an empty \<^verbatim>\<open>forecasts\<close> list, every synthesised
  item carries the product identifier \<^verbatim>\<open>sample_product\<close> and no warehouse identifier.
  The normaliser is not given the requested product and warehouse identifiers, so the
  items cannot depend on them.
\<close>

theorem placeholder_identity:
  assumes "forecasts result = []"
  shows "\<forall>item \<in> set (forecasts (enhance_forecast_result now result days)).
           product_id item = ''sample_product'' \<and> warehouse_id item = None"
  unfolding enhance_forecasts_empty[OF assms] by auto

theorem placeholder_identity_witness:
  "forecasts oracle_empty_forecast = []
   \<and> map product_id (forecasts (enhance_forecast_result 500 oracle_empty_forecast 2))
       = [''sample_product'', ''sample_product'']
   \<and> map warehouse_id (forecasts (enhance_forecast_result 500 oracle_empty_forecast 2))
       = [None, None]"
proof -
  have e: "forecasts oracle_empty_forecast = []" by (simp add: oracle_empty_forecast_def)
  have two: "[0 ..< 2] = [0, 1 :: nat]" by code_simp
  from placeholder_identity[OF e, of 500 2] e
  show ?thesis by (simp add: enhance_forecasts_empty[OF e] two)
qed

section \<open>Properties of the seasonal profile\<close>

lemma month_keys:
  "map month_key [1 ..< 13] =
     [''month_1'', ''month_2'', ''month_3'', ''month_4'', ''month_5'', ''month_6'',
      ''month_7'', ''month_8'', ''month_9'', ''month_10'', ''month_11'', ''month_12'']"
  by code_simp

lemma month_keys_distinct: "distinct (map month_key [1 ..< 13])"
  unfolding month_keys by simp

lemma map_of_keyed:
  "distinct (map f xs) \<Longrightarrow> m \<in> set xs \<Longrightarrow> map_of (map (\<lambda>k. (f k, g k)) xs) (f m) = Some (g m)"
  by (induction xs) (auto simp: rev_image_eqI)

lemma dated_rows_orders:
  "dated_rows hist = Inr df \<Longrightarrow> df \<noteq> [] \<Longrightarrow> \<not> list_all (\<lambda>r. orders r = OrdersAbsent) hist"
proof (induction hist arbitrary: df)
  case Nil
  then show ?case by simp
next
  case (Cons r rs)
  then show ?case
    by (auto simp: row_date_def split: sum.splits option.splits orders_cell.splits
          created_at_cell.splits)
qed

lemma seasonal_usable_eq:
  assumes "seasonal_data_usable hist"
  shows "calculate_seasonal_patterns hist =
         map (\<lambda>month. (month_key month,
                if month \<in> observed_months hist
                then np_divide
                       (series_mean (map snd (filter (\<lambda>row. fst row = month)
                          (case dated_rows hist of Inr df \<Rightarrow> df | Inl e \<Rightarrow> []))))
                       (series_mean (map snd (case dated_rows hist of Inr df \<Rightarrow> df | Inl e \<Rightarrow> [])))
                else PFin 1))
             [1 ..< 13]"
proof -
  from assms obtain df where df: "dated_rows hist = Inr df" "df \<noteq> []"
    and q: "list_ex (\<lambda>r. quantity r \<noteq> QuantityAbsent) hist"
    by (auto simp: seasonal_data_usable_def split: sum.splits)
  from df have ne: "hist \<noteq> []" by auto
  from q have nq: "\<not> list_all (\<lambda>r. quantity r = QuantityAbsent) hist"
    by (auto simp: list_ex_iff list_all_iff)
  note no = dated_rows_orders[OF df]
  have sw: "(\<lambda>month. if C month then (k month, a month) else (k month, b))
            = (\<lambda>month. (k month, if C month then a month else b))"
    for C :: "nat \<Rightarrow> bool" and k :: "nat \<Rightarrow> string" and a b
    by auto
  show ?thesis
    using ne no nq df
    by (simp add: calculate_seasonal_patterns_def observed_months_def Let_def sw)
qed

lemma seasonal_unusable_eq:
  assumes "\<not> seasonal_data_usable hist"
  shows "calculate_seasonal_patterns hist = []"
  using assms
  by (auto simp: calculate_seasonal_patterns_def seasonal_data_usable_def Let_def
        list_ex_iff list_all_iff split: sum.splits)

lemma sample_dated:
  "dated_rows sample_history = Inr [(3, Quantity 4), (3, Quantity 8), (7, Quantity 12)]"
  by (simp add: sample_history_def row_date_def)

lemma sample_profile:
  "calculate_seasonal_patterns sample_history =
     [(''month_1'', PFin 1), (''month_2'', PFin 1), (''month_3'', PFin (3 / 4)),
      (''month_4'', PFin 1), (''month_5'', PFin 1), (''month_6'', PFin 1),
      (''month_7'', PFin (3 / 2)), (''month_8'', PFin 1), (''month_9'', PFin 1),
      (''month_10'', PFin 1), (''month_11'', PFin 1), (''month_12'', PFin 1)]"
  by code_simp

text \<open>
  Claim C2, as amended. The claim reads: with seasonality enabled the profile always has
  exactly 12 entries, every unobserved month with ratio 1.0, also for an empty
  historical record sequence. In the code the 12 entries are produced only from usable
  data: every \<^verbatim>\<open>orders\<close> dictionary has a \<^verbatim>\<open>created_at\<close> that is null or parses, at
  least one record has a date, and some record has a \<^verbatim>\<open>quantity\<close>. Then the keys are
  \<^verbatim>\<open>month_1\<close> to \<^verbatim>\<open>month_12\<close> in this order, and every month with no dated record has
  ratio exactly 1.0. From any other data, and in particular from no data, the
  profile is the empty dictionary.
\<close>

theorem seasonal_profile_shape:
  "(seasonal_data_usable hist \<longrightarrow>
      map fst (forecast_demand_seasonal_patterns hist True) = map month_key [1 ..< 13]
    \<and> length (forecast_demand_seasonal_patterns hist True) = 12
    \<and> distinct (map fst (forecast_demand_seasonal_patterns hist True))
    \<and> (\<forall>m \<in> {1 .. 12}. m \<notin> observed_months hist \<longrightarrow>
          map_of (forecast_demand_seasonal_patterns hist True) (month_key m) = Some (PFin 1)))
   \<and> (\<not> seasonal_data_usable hist \<longrightarrow> forecast_demand_seasonal_patterns hist True = [])
   \<and> \<not> seasonal_data_usable []
   \<and> forecast_demand_seasonal_patterns [] True = []"
proof -
  have a: "map fst (forecast_demand_seasonal_patterns hist True) = map month_key [1 ..< 13]"
    if "seasonal_data_usable hist"
    by (simp add: forecast_demand_seasonal_patterns_def seasonal_usable_eq[OF that] comp_def)
  have b: "map_of (forecast_demand_seasonal_patterns hist True) (month_key m) = Some (PFin 1)"
    if "seasonal_data_usable hist" "m \<in> {1 .. 12}" "m \<notin> observed_months hist" for m
  proof -
    define G where "G = (\<lambda>month. if month \<in> observed_months hist
                then np_divide
                       (series_mean (map snd (filter (\<lambda>row. fst row = month)
                          (case dated_rows hist of Inr df \<Rightarrow> df | Inl e \<Rightarrow> []))))
                       (series_mean (map snd (case dated_rows hist of Inr df \<Rightarrow> df | Inl e \<Rightarrow> [])))
                else PFin 1)"
    have eq: "forecast_demand_seasonal_patterns hist True
              = map (\<lambda>month. (month_key month, G month)) [1 ..< 13]"
      by (simp add: forecast_demand_seasonal_patterns_def seasonal_usable_eq[OF that(1)] G_def)
    from that(2) have mem: "m \<in> set [1 ..< 13]" by auto
    have "map_of (forecast_demand_seasonal_patterns hist True) (month_key m) = Some (G m)"
      unfolding eq by (rule map_of_keyed[OF month_keys_distinct mem])
    with that(3) show ?thesis by (simp add: G_def)
  qed
  have c: "forecast_demand_seasonal_patterns hist True = []" if "\<not> seasonal_data_usable hist"
    by (simp add: forecast_demand_seasonal_patterns_def seasonal_unusable_eq[OF that])
  have d: "\<not> seasonal_data_usable []" by (simp add: seasonal_data_usable_def)
  have e: "forecast_demand_seasonal_patterns [] True = []"
    by (simp add: forecast_demand_seasonal_patterns_def calculate_seasonal_patterns_def)
  have l: "length (forecast_demand_seasonal_patterns hist True) = 12" if "seasonal_data_usable hist"
    using arg_cong[OF a[OF that], of length] by simp
  show ?thesis
    using a b c d e l month_keys_distinct by simp
qed

theorem seasonal_profile_shape_witness:
  "seasonal_data_usable sample_history
   \<and> length (forecast_demand_seasonal_patterns sample_history True) = 12
   \<and> (1 :: nat) \<in> {1 .. 12} \<and> 1 \<notin> observed_months sample_history
   \<and> map_of (forecast_demand_seasonal_patterns sample_history True) (month_key 1) = Some (PFin 1)
   \<and> month_key 1 = ''month_1''
   \<and> \<not> seasonal_data_usable []
   \<and> forecast_demand_seasonal_patterns [] True = []"
proof -
  have u: "seasonal_data_usable sample_history"
    by (simp add: seasonal_data_usable_def sample_dated) (simp add: sample_history_def)
  have o: "1 \<notin> observed_months sample_history"
    by (simp add: observed_months_def sample_dated)
  have k: "month_key 1 = ''month_1''" by code_simp
  from seasonal_profile_shape[of sample_history] u
  have len: "length (forecast_demand_seasonal_patterns sample_history True) = 12"
    and unobserved: "\<forall>m \<in> {1 .. 12}. m \<notin> observed_months sample_history \<longrightarrow>
          map_of (forecast_demand_seasonal_patterns sample_history True) (month_key m)
            = Some (PFin 1)"
    by blast+
  from unobserved o
  have m1: "map_of (forecast_demand_seasonal_patterns sample_history True) (month_key 1)
            = Some (PFin 1)"
    by simp
  from seasonal_profile_shape[of "[]"]
  have e: "\<not> seasonal_data_usable []" "forecast_demand_seasonal_patterns [] True = []"
    by blast+
  from u len o m1 k e show ?thesis by simp
qed

text \<open>
  The claim as stated fails on the empty historical record sequence, for which the
  guard \<^verbatim>\<open>if not historical_data: return {}\<close> returns a profile of no entries.
\<close>

theorem seasonal_profile_empty_counterexample:
  "forecast_demand_seasonal_patterns [] True = []
   \<and> length (forecast_demand_seasonal_patterns [] True) \<noteq> 12"
  by (simp add: forecast_demand_seasonal_patterns_def calculate_seasonal_patterns_def)

section \<open>Properties of request validation\<close>

text \<open>
  Claim C4, as amended. The claim reads: a request that violates its declared
  constraints is rejected with a validation error before the pipeline runs, namely
  \<^verbatim>\<open>forecast_days\<close> outside \<open>[1, 365]\<close> or an empty \<^verbatim>\<open>product_ids\<close> list for the demand
  forecast, and \<^verbatim>\<open>sensitivity\<close> outside \<open>[0, 1]\<close> for anomaly detection. The request
  models declare the two ranges and nothing about the length of \<^verbatim>\<open>product_ids\<close>: a
  request with \<^verbatim>\<open>forecast_days\<close> or \<^verbatim>\<open>sensitivity\<close> out of range is answered 422
  whatever the pipeline is, and a request with \<^verbatim>\<open>forecast_days\<close> in range is accepted
  and handed to the pipeline whatever its \<^verbatim>\<open>product_ids\<close>.
\<close>

theorem request_constraints_enforced:
  "(forecast_days body < 1 \<or> 365 < forecast_days body \<longrightarrow>
      validate_DemandForecastRequest body = Inl ValidationError
    \<and> forecast_demand_endpoint demand_agent body = HTTP_422)
   \<and> (sensitivity abody < 0 \<or> 1 < sensitivity abody \<longrightarrow>
      validate_AnomalyDetectionRequest abody = Inl ValidationError
    \<and> detect_anomalies_endpoint anomaly_agent abody = HTTP_422)
   \<and> (1 \<le> forecast_days body \<and> forecast_days body \<le> 365 \<longrightarrow>
      validate_DemandForecastRequest body = Inr body
    \<and> forecast_demand_endpoint (Some pipeline) body
        = (case pipeline body of Inl e \<Rightarrow> HTTP_500 | Inr result \<Rightarrow> Response result))"
  by (auto simp: validate_DemandForecastRequest_def validate_AnomalyDetectionRequest_def
        forecast_demand_endpoint_def detect_anomalies_endpoint_def field_ge_le_def)

theorem request_constraints_enforced_witness:
  "forecast_days (forecast_request [''p1''] 0) < 1
   \<and> forecast_demand_endpoint (Some counting_pipeline) (forecast_request [''p1''] 0) = HTTP_422
   \<and> 365 < forecast_days (forecast_request [''p1''] 366)
   \<and> forecast_demand_endpoint (Some counting_pipeline) (forecast_request [''p1''] 366) = HTTP_422
   \<and> 1 < sensitivity (anomaly_request (3 / 2))
   \<and> detect_anomalies_endpoint (Some (\<lambda>request. Inr (0 :: nat) :: unit + nat))
        (anomaly_request (3 / 2)) = HTTP_422
   \<and> sensitivity (anomaly_request (- 1 / 10)) < 0
   \<and> detect_anomalies_endpoint (Some (\<lambda>request. Inr (0 :: nat) :: unit + nat))
        (anomaly_request (- 1 / 10)) = HTTP_422
   \<and> 1 \<le> forecast_days (forecast_request [''p1'', ''p2''] 30)
   \<and> forecast_days (forecast_request [''p1'', ''p2''] 30) \<le> 365
   \<and> forecast_demand_endpoint (Some counting_pipeline) (forecast_request [''p1'', ''p2''] 30)
       = Response 2"
  using request_constraints_enforced[of "forecast_request [''p1''] 0" "Some counting_pipeline"
      "anomaly_request (3 / 2)" "Some (\<lambda>request. Inr (0 :: nat) :: unit + nat)" counting_pipeline]
    request_constraints_enforced[of "forecast_request [''p1''] 366" "Some counting_pipeline"
      "anomaly_request (- 1 / 10)" "Some (\<lambda>request. Inr (0 :: nat) :: unit + nat)" counting_pipeline]
    request_constraints_enforced[of "forecast_request [''p1'', ''p2''] 30" "Some counting_pipeline"
      "anomaly_request (1 / 2)" "Some (\<lambda>request. Inr (0 :: nat) :: unit + nat)" counting_pipeline]
  by (simp add: forecast_request_def anomaly_request_def counting_pipeline_def)

text \<open>
  The claim as stated fails on a request with an empty \<^verbatim>\<open>product_ids\<close> list: it is
  valid, and the pipeline runs on it.
\<close>

theorem empty_product_ids_counterexample:
  "product_ids (forecast_request [] 30) = []
   \<and> validate_DemandForecastRequest (forecast_request [] 30) = Inr (forecast_request [] 30)
   \<and> forecast_demand_endpoint (Some counting_pipeline) (forecast_request [] 30) = Response 0"
  by (simp add: forecast_request_def validate_DemandForecastRequest_def field_ge_le_def
        forecast_demand_endpoint_def counting_pipeline_def)

end
